theory Spec2Isabelle
  imports Complex_Main
begin

section \<open>Scalars: the C++ type double\<close>

text \<open>
  \<^verbatim>\<open>DynamicModel.cpp\<close> computes on \<^verbatim>\<open>double\<close>, the binary64 format. The model keeps the
  special values the source tests for (\<^verbatim>\<open>hasNaN\<close>) and the infinities, with the IEEE 754
  rules for them. A sum, product or quotient of finite values overflows to the infinity
  of its sign exactly when binary64 rounds it to an infinity: when its magnitude reaches
  \<open>2 ^ 1024 - 2 ^ 970\<close>, half a unit in the last place beyond the largest finite value.
  Below that threshold the result is kept as it is: the model does not round, has no
  underflow, and has one zero.
\<close>

datatype double = Fin real | PInf | NInf | NaN

definition overflow_threshold :: real where
  "overflow_threshold = 2 ^ 1024 - 2 ^ 970"

definition overflow :: "real \<Rightarrow> double" where
  "overflow x =
     (if overflow_threshold \<le> x then PInf
      else if x \<le> - overflow_threshold then NInf
      else Fin x)"

fun is_Fin :: "double \<Rightarrow> bool" where
  "is_Fin (Fin x) = True"
| "is_Fin PInf = False"
| "is_Fin NInf = False"
| "is_Fin NaN = False"

fun isnan :: "double \<Rightarrow> bool" where
  "isnan NaN = True"
| "isnan (Fin x) = False"
| "isnan PInf = False"
| "isnan NInf = False"

instantiation double :: "{zero, one, plus, minus, uminus, times, inverse, abs, ord}"
begin

definition zero_double :: double where
  "zero_double = Fin 0"

definition one_double :: double where
  "one_double = Fin 1"

fun plus_double :: "double \<Rightarrow> double \<Rightarrow> double" where
  "plus_double (Fin x) (Fin y) = overflow (x + y)"
| "plus_double NaN b = NaN"
| "plus_double a NaN = NaN"
| "plus_double PInf NInf = NaN"
| "plus_double NInf PInf = NaN"
| "plus_double PInf b = PInf"
| "plus_double a PInf = PInf"
| "plus_double NInf b = NInf"
| "plus_double a NInf = NInf"

fun uminus_double :: "double \<Rightarrow> double" where
  "uminus_double (Fin x) = Fin (- x)"
| "uminus_double PInf = NInf"
| "uminus_double NInf = PInf"
| "uminus_double NaN = NaN"

definition minus_double :: "double \<Rightarrow> double \<Rightarrow> double" where
  "minus_double a b = a + (- b)"

fun times_double :: "double \<Rightarrow> double \<Rightarrow> double" where
  "times_double (Fin x) (Fin y) = overflow (x * y)"
| "times_double NaN b = NaN"
| "times_double a NaN = NaN"
| "times_double PInf (Fin y) = (if y = 0 then NaN else if 0 < y then PInf else NInf)"
| "times_double NInf (Fin y) = (if y = 0 then NaN else if 0 < y then NInf else PInf)"
| "times_double (Fin x) PInf = (if x = 0 then NaN else if 0 < x then PInf else NInf)"
| "times_double (Fin x) NInf = (if x = 0 then NaN else if 0 < x then NInf else PInf)"
| "times_double PInf PInf = PInf"
| "times_double PInf NInf = NInf"
| "times_double NInf PInf = NInf"
| "times_double NInf NInf = PInf"

text \<open>Division by a zero divisor takes the zero as positive; the source divides only
  by a value it has tested to be greater than zero.\<close>

fun divide_double :: "double \<Rightarrow> double \<Rightarrow> double" where
  "divide_double (Fin x) (Fin y) =
     (if y = 0 then (if x = 0 then NaN else if 0 < x then PInf else NInf)
      else overflow (x / y))"
| "divide_double NaN b = NaN"
| "divide_double a NaN = NaN"
| "divide_double (Fin x) PInf = Fin 0"
| "divide_double (Fin x) NInf = Fin 0"
| "divide_double PInf (Fin y) = (if 0 \<le> y then PInf else NInf)"
| "divide_double NInf (Fin y) = (if 0 \<le> y then NInf else PInf)"
| "divide_double PInf PInf = NaN"
| "divide_double PInf NInf = NaN"
| "divide_double NInf PInf = NaN"
| "divide_double NInf NInf = NaN"

definition inverse_double :: "double \<Rightarrow> double" where
  "inverse_double a = divide (Fin 1) a"

fun abs_double :: "double \<Rightarrow> double" where
  "abs_double (Fin x) = Fin \<bar>x\<bar>"
| "abs_double PInf = PInf"
| "abs_double NInf = PInf"
| "abs_double NaN = NaN"

text \<open>Every comparison with a NaN operand is false.\<close>

fun less_eq_double :: "double \<Rightarrow> double \<Rightarrow> bool" where
  "less_eq_double (Fin x) (Fin y) = (x \<le> y)"
| "less_eq_double NaN b = False"
| "less_eq_double a NaN = False"
| "less_eq_double NInf b = True"
| "less_eq_double a PInf = True"
| "less_eq_double PInf b = False"
| "less_eq_double a NInf = False"

fun less_double :: "double \<Rightarrow> double \<Rightarrow> bool" where
  "less_double (Fin x) (Fin y) = (x < y)"
| "less_double NaN b = False"
| "less_double a NaN = False"
| "less_double PInf b = False"
| "less_double a NInf = False"
| "less_double NInf b = True"
| "less_double a PInf = True"

instance ..

end

section \<open>Fixed-size vectors and matrices\<close>

text \<open>
  \<^verbatim>\<open>base::Vector3d\<close>, \<^verbatim>\<open>base::Vector6d\<close> and \<^verbatim>\<open>base::Matrix6d\<close> are fixed-size Eigen
  types; a matrix is given by its six rows. The operations below are the Eigen operations
  that \<^verbatim>\<open>DynamicModel.cpp\<close> calls, with Eigen's coefficient formulas.
\<close>

datatype vec3 = Vec3 double double double

datatype vec6 = Vec6 double double double double double double

datatype mat6 = Mat6 vec6 vec6 vec6 vec6 vec6 vec6

instantiation vec3 :: "{zero, plus, minus}"
begin

definition zero_vec3 :: vec3 where
  "zero_vec3 = Vec3 0 0 0"

fun plus_vec3 :: "vec3 \<Rightarrow> vec3 \<Rightarrow> vec3" where
  "plus_vec3 (Vec3 a1 a2 a3) (Vec3 b1 b2 b3) = Vec3 (a1 + b1) (a2 + b2) (a3 + b3)"

fun minus_vec3 :: "vec3 \<Rightarrow> vec3 \<Rightarrow> vec3" where
  "minus_vec3 (Vec3 a1 a2 a3) (Vec3 b1 b2 b3) = Vec3 (a1 - b1) (a2 - b2) (a3 - b3)"

instance ..

end

text \<open>\<^verbatim>\<open>v * s\<close>, a 3-vector times a scalar.\<close>

fun scale3 :: "vec3 \<Rightarrow> double \<Rightarrow> vec3" where
  "scale3 (Vec3 a1 a2 a3) s = Vec3 (a1 * s) (a2 * s) (a3 * s)"

text \<open>\<^verbatim>\<open>s * v\<close>, a scalar times a 3-vector.\<close>

fun lscale3 :: "double \<Rightarrow> vec3 \<Rightarrow> vec3" where
  "lscale3 s (Vec3 a1 a2 a3) = Vec3 (s * a1) (s * a2) (s * a3)"

text \<open>\<^verbatim>\<open>a.cross(b)\<close>.\<close>

fun cross :: "vec3 \<Rightarrow> vec3 \<Rightarrow> vec3" where
  "cross (Vec3 a1 a2 a3) (Vec3 b1 b2 b3) =
     Vec3 (a2 * b3 - a3 * b2) (a3 * b1 - a1 * b3) (a1 * b2 - a2 * b1)"

instantiation vec6 :: "{zero, plus, minus, uminus}"
begin

definition zero_vec6 :: vec6 where
  "zero_vec6 = Vec6 0 0 0 0 0 0"

fun plus_vec6 :: "vec6 \<Rightarrow> vec6 \<Rightarrow> vec6" where
  "plus_vec6 (Vec6 a1 a2 a3 a4 a5 a6) (Vec6 b1 b2 b3 b4 b5 b6) =
     Vec6 (a1 + b1) (a2 + b2) (a3 + b3) (a4 + b4) (a5 + b5) (a6 + b6)"

fun minus_vec6 :: "vec6 \<Rightarrow> vec6 \<Rightarrow> vec6" where
  "minus_vec6 (Vec6 a1 a2 a3 a4 a5 a6) (Vec6 b1 b2 b3 b4 b5 b6) =
     Vec6 (a1 - b1) (a2 - b2) (a3 - b3) (a4 - b4) (a5 - b5) (a6 - b6)"

fun uminus_vec6 :: "vec6 \<Rightarrow> vec6" where
  "uminus_vec6 (Vec6 a1 a2 a3 a4 a5 a6) = Vec6 (- a1) (- a2) (- a3) (- a4) (- a5) (- a6)"

instance ..

end

text \<open>\<^verbatim>\<open>v.head<3>()\<close> and \<^verbatim>\<open>v.tail<3>()\<close>.\<close>

fun head3 :: "vec6 \<Rightarrow> vec3" where
  "head3 (Vec6 a1 a2 a3 a4 a5 a6) = Vec3 a1 a2 a3"

fun tail3 :: "vec6 \<Rightarrow> vec3" where
  "tail3 (Vec6 a1 a2 a3 a4 a5 a6) = Vec3 a4 a5 a6"

text \<open>The comma initialiser \<^verbatim>\<open>v6 << a, b\<close> with two 3-vectors.\<close>

fun comma6 :: "vec3 \<Rightarrow> vec3 \<Rightarrow> vec6" where
  "comma6 (Vec3 a1 a2 a3) (Vec3 b1 b2 b3) = Vec6 a1 a2 a3 b1 b2 b3"

text \<open>\<^verbatim>\<open>v.cwiseAbs()\<close>.\<close>

fun cwiseAbs :: "vec6 \<Rightarrow> vec6" where
  "cwiseAbs (Vec6 a1 a2 a3 a4 a5 a6) = Vec6 \<bar>a1\<bar> \<bar>a2\<bar> \<bar>a3\<bar> \<bar>a4\<bar> \<bar>a5\<bar> \<bar>a6\<bar>"

text \<open>\<^verbatim>\<open>v.hasNaN()\<close>.\<close>

fun hasNaN :: "vec6 \<Rightarrow> bool" where
  "hasNaN (Vec6 a1 a2 a3 a4 a5 a6) =
     (isnan a1 \<or> isnan a2 \<or> isnan a3 \<or> isnan a4 \<or> isnan a5 \<or> isnan a6)"

text \<open>\<^verbatim>\<open>v[i]\<close>. The source reads it for \<^verbatim>\<open>i\<close> below 6 only; Eigen has no
  coefficient beyond, and the model gives NaN there.\<close>

fun coeff :: "vec6 \<Rightarrow> nat \<Rightarrow> double" where
  "coeff (Vec6 a1 a2 a3 a4 a5 a6) i =
     (if i = 0 then a1 else if i = 1 then a2 else if i = 2 then a3
      else if i = 3 then a4 else if i = 4 then a5 else if i = 5 then a6 else NaN)"

text \<open>The dot product of a matrix row with a vector, summed from the left.\<close>

fun dot6 :: "vec6 \<Rightarrow> vec6 \<Rightarrow> double" where
  "dot6 (Vec6 a1 a2 a3 a4 a5 a6) (Vec6 b1 b2 b3 b4 b5 b6) =
     a1 * b1 + a2 * b2 + a3 * b3 + a4 * b4 + a5 * b5 + a6 * b6"

text \<open>\<^verbatim>\<open>M * v\<close>, a matrix times a vector.\<close>

fun mat_vec :: "mat6 \<Rightarrow> vec6 \<Rightarrow> vec6" where
  "mat_vec (Mat6 r1 r2 r3 r4 r5 r6) v =
     Vec6 (dot6 r1 v) (dot6 r2 v) (dot6 r3 v) (dot6 r4 v) (dot6 r5 v) (dot6 r6 v)"

text \<open>A row times a scalar, and \<^verbatim>\<open>M * s\<close>, a matrix times a scalar.\<close>

fun scale6 :: "vec6 \<Rightarrow> double \<Rightarrow> vec6" where
  "scale6 (Vec6 a1 a2 a3 a4 a5 a6) s = Vec6 (a1 * s) (a2 * s) (a3 * s) (a4 * s) (a5 * s) (a6 * s)"

fun mat_scale :: "mat6 \<Rightarrow> double \<Rightarrow> mat6" where
  "mat_scale (Mat6 r1 r2 r3 r4 r5 r6) s =
     Mat6 (scale6 r1 s) (scale6 r2 s) (scale6 r3 s) (scale6 r4 s) (scale6 r5 s) (scale6 r6 s)"

text \<open>\<^verbatim>\<open>M * d.asDiagonal()\<close>: column \<^verbatim>\<open>j\<close> of \<^verbatim>\<open>M\<close> is scaled by \<^verbatim>\<open>d[j]\<close>.\<close>

fun cwiseProduct :: "vec6 \<Rightarrow> vec6 \<Rightarrow> vec6" where
  "cwiseProduct (Vec6 a1 a2 a3 a4 a5 a6) (Vec6 b1 b2 b3 b4 b5 b6) =
     Vec6 (a1 * b1) (a2 * b2) (a3 * b3) (a4 * b4) (a5 * b5) (a6 * b6)"

fun mat_asDiagonal :: "mat6 \<Rightarrow> vec6 \<Rightarrow> mat6" where
  "mat_asDiagonal (Mat6 r1 r2 r3 r4 r5 r6) d =
     Mat6 (cwiseProduct r1 d) (cwiseProduct r2 d) (cwiseProduct r3 d)
          (cwiseProduct r4 d) (cwiseProduct r5 d) (cwiseProduct r6 d)"

instantiation mat6 :: "{zero, one, plus}"
begin

definition zero_mat6 :: mat6 where
  "zero_mat6 = Mat6 0 0 0 0 0 0"

text \<open>\<^verbatim>\<open>base::Matrix6d::Identity()\<close>.\<close>

definition one_mat6 :: mat6 where
  "one_mat6 = Mat6 (Vec6 1 0 0 0 0 0) (Vec6 0 1 0 0 0 0) (Vec6 0 0 1 0 0 0)
                   (Vec6 0 0 0 1 0 0) (Vec6 0 0 0 0 1 0) (Vec6 0 0 0 0 0 1)"

fun plus_mat6 :: "mat6 \<Rightarrow> mat6 \<Rightarrow> mat6" where
  "plus_mat6 (Mat6 r1 r2 r3 r4 r5 r6) (Mat6 s1 s2 s3 s4 s5 s6) =
     Mat6 (r1 + s1) (r2 + s2) (r3 + s3) (r4 + s4) (r5 + s5) (r6 + s6)"

instance ..

end

text \<open>The matrix product, row by row: row \<^verbatim>\<open>i\<close> of \<^verbatim>\<open>A * B\<close> is the combination of the
  rows of \<^verbatim>\<open>B\<close> with the coefficients of row \<^verbatim>\<open>i\<close> of \<^verbatim>\<open>A\<close>. The source forms no
  matrix product; the product states what an inverse matrix is.\<close>

fun row_mat :: "vec6 \<Rightarrow> mat6 \<Rightarrow> vec6" where
  "row_mat (Vec6 a1 a2 a3 a4 a5 a6) (Mat6 s1 s2 s3 s4 s5 s6) =
     scale6 s1 a1 + scale6 s2 a2 + scale6 s3 a3 + scale6 s4 a4 + scale6 s5 a5 + scale6 s6 a6"

fun mat_mat :: "mat6 \<Rightarrow> mat6 \<Rightarrow> mat6" where
  "mat_mat (Mat6 r1 r2 r3 r4 r5 r6) B =
     Mat6 (row_mat r1 B) (row_mat r2 B) (row_mat r3 B) (row_mat r4 B) (row_mat r5 B) (row_mat r6 B)"

definition is_inverse_of :: "mat6 \<Rightarrow> mat6 \<Rightarrow> bool" where
  "is_inverse_of X M \<longleftrightarrow> mat_mat X M = 1 \<and> mat_mat M X = 1"

section \<open>Orientations\<close>

text \<open>
  \<^verbatim>\<open>base::Orientation\<close> is \<^verbatim>\<open>Eigen::Quaterniond\<close>. The source calls \<^verbatim>\<open>inverse()\<close> and the
  product of a quaternion with a 3-vector. Eigen's \<^verbatim>\<open>inverse()\<close> divides the conjugate by
  the squared norm when that is greater than zero, and returns the zero quaternion
  otherwise; its product with a vector \<^verbatim>\<open>v\<close> is
  \<^verbatim>\<open>uv = vec().cross(v); uv += uv; return v + w() * uv + vec().cross(uv)\<close>.
\<close>

record quaternion =
  qw :: double
  qx :: double
  qy :: double
  qz :: double

definition squaredNorm :: "quaternion \<Rightarrow> double" where
  "squaredNorm q = qx q * qx q + qy q * qy q + qz q * qz q + qw q * qw q"

definition quat_inverse :: "quaternion \<Rightarrow> quaternion" where
  "quat_inverse q =
     (let n2 = squaredNorm q in
      if 0 < n2
      then \<lparr>qw = qw q / n2, qx = (- qx q) / n2, qy = (- qy q) / n2, qz = (- qz q) / n2\<rparr>
      else \<lparr>qw = 0, qx = 0, qy = 0, qz = 0\<rparr>)"

definition quat_vec :: "quaternion \<Rightarrow> vec3" where
  "quat_vec q = Vec3 (qx q) (qy q) (qz q)"

definition transformVector :: "quaternion \<Rightarrow> vec3 \<Rightarrow> vec3" where
  "transformVector q v =
     (let uv = cross (quat_vec q) v;
          uv2 = uv + uv
      in v + lscale3 (qw q) uv2 + cross (quat_vec q) uv2)"

section \<open>The dynamic model\<close>

text \<open>
  Modelled from the spec: the header that declares \<^verbatim>\<open>ModelType\<close> is not among the
  sources. The enumerators are the three labels of the \<^verbatim>\<open>switch\<close> in
  \<^verbatim>\<open>calcDampingAndCoriolisEffect\<close>, the three fidelities of the specification.
\<close>

datatype ModelType = SIMPLE | COMPLEX | INTERMEDIATE

text \<open>
  Modelled from the spec: the header that declares \<^verbatim>\<open>UWVParameters\<close> is not among the
  sources. The fields are those of the specification's vehicle parameters, under the
  names and with the types that \<^verbatim>\<open>DynamicModel.cpp\<close> reads them at.
\<close>

record UWVParameters =
  model_type :: ModelType
  inertia_matrix :: mat6
  damping_matrices :: "mat6 list"
  distance_body2centerofbuoyancy :: vec3
  distance_body2centerofgravity :: vec3
  weight :: double
  buoyancy :: double

text \<open>
  Modelled from the spec: the class declaration is not among the sources. The state of a
  \<^verbatim>\<open>DynamicModel\<close> is the two members that \<^verbatim>\<open>setUWVParameters\<close> assigns, the parameter
  set and the cached inverse of the inertia matrix.
\<close>

record DynamicModel =
  uwv_parameters :: UWVParameters
  invert_inertia_matrix :: mat6

text \<open>The two exception classes the source throws, each with its message.\<close>

datatype error = invalid_argument string | runtime_error string

subsection \<open>Checks\<close>

definition checkParameters :: "UWVParameters \<Rightarrow> error + unit" where
  "checkParameters uwv =
     (if model_type uwv = SIMPLE \<and> length (damping_matrices uwv) \<noteq> 2 then
        Inl (invalid_argument ''in SIMPLE model, damping_matrices should have two elements, the linear damping matrix and quadratic damping matrix'')
      else if model_type uwv = COMPLEX \<and> length (damping_matrices uwv) \<noteq> 6 then
        Inl (invalid_argument ''in COMPLEX model, damping_matrices should have six elements, one quadratic damping matrix / DOF'')
      else if weight uwv \<le> 0 then
        Inl (invalid_argument ''weight must be a positive value'')
      else if buoyancy uwv \<le> 0 then
        Inl (invalid_argument ''buoyancy must be a positive value'')
      else Inr ())"

definition checkControlInput :: "vec6 \<Rightarrow> error + unit" where
  "checkControlInput control_input =
     (if hasNaN control_input
      then Inl (runtime_error ''DynamicModel checkControlInput: control input is unset'')
      else Inr ())"

definition checkVelocity :: "vec6 \<Rightarrow> error + unit" where
  "checkVelocity velocity =
     (if hasNaN velocity
      then Inl (runtime_error ''DynamicModel checkVelocity: velocity is unset'')
      else Inr ())"

definition checkAcceleration :: "vec6 \<Rightarrow> error + unit" where
  "checkAcceleration acceleration =
     (if hasNaN acceleration
      then Inl (runtime_error ''DynamicModel checkAcceleration: acceleration is unset'')
      else Inr ())"

subsection \<open>Configuration\<close>

text \<open>
  \<^verbatim>\<open>calcInvInertiaMatrix\<close> returns \<^verbatim>\<open>svd.solve(Identity())\<close> for the Jacobi singular value
  decomposition of the inertia matrix. The decomposition is Eigen's, an iteration that
  stops on a floating-point threshold; the model takes \<^verbatim>\<open>JacobiSVD(M).solve(B)\<close> as a
  parameter \<open>svd_solve M B\<close>.
\<close>

definition calcInvInertiaMatrix :: "(mat6 \<Rightarrow> mat6 \<Rightarrow> mat6) \<Rightarrow> mat6 \<Rightarrow> mat6" where
  "calcInvInertiaMatrix svd_solve inertia = svd_solve inertia 1"

text \<open>
  A member function that may throw returns its outcome together with the object as the
  call leaves it: the check comes first, the two assignments follow.
\<close>

definition setUWVParameters ::
    "(mat6 \<Rightarrow> mat6 \<Rightarrow> mat6) \<Rightarrow> UWVParameters \<Rightarrow> DynamicModel \<Rightarrow> (error + unit) \<times> DynamicModel" where
  "setUWVParameters svd_solve parameters m =
     (case checkParameters parameters of
        Inl e \<Rightarrow> (Inl e, m)
      | Inr u \<Rightarrow>
          (let m1 = m\<lparr>uwv_parameters := parameters\<rparr>;
               m2 = m1\<lparr>invert_inertia_matrix :=
                         calcInvInertiaMatrix svd_solve (inertia_matrix (uwv_parameters m1))\<rparr>
           in (Inr (), m2)))"

definition getUWVParameters :: "DynamicModel \<Rightarrow> UWVParameters" where
  "getUWVParameters m = uwv_parameters m"

subsection \<open>Gravity and buoyancy\<close>

definition calcGravityBuoyancy :: "quaternion \<Rightarrow> double \<Rightarrow> double \<Rightarrow> vec3 \<Rightarrow> vec3 \<Rightarrow> vec6" where
  "calcGravityBuoyancy orientation W bouyancy cg cb =
     comma6 (transformVector (quat_inverse orientation) (Vec3 0 0 (W - bouyancy)))
            (cross (scale3 cg W - scale3 cb bouyancy)
                   (transformVector (quat_inverse orientation) (Vec3 0 0 1)))"

definition calcGravityBuoyancy_uwv :: "quaternion \<Rightarrow> UWVParameters \<Rightarrow> vec6" where
  "calcGravityBuoyancy_uwv orientation uwv =
     calcGravityBuoyancy orientation (weight uwv) (buoyancy uwv)
       (distance_body2centerofgravity uwv) (distance_body2centerofbuoyancy uwv)"

subsection \<open>Coriolis effect and damping\<close>

definition calcCoriolisEffect :: "mat6 \<Rightarrow> vec6 \<Rightarrow> vec6" where
  "calcCoriolisEffect inertia velocity =
     (let prod = mat_vec inertia velocity;
          coriloisEffect =
            comma6 (cross (head3 prod) (tail3 velocity))
                   (cross (head3 prod) (head3 velocity) + cross (tail3 prod) (tail3 velocity))
      in - coriloisEffect)"

definition calcLinDamping :: "mat6 \<Rightarrow> vec6 \<Rightarrow> vec6" where
  "calcLinDamping lin_damp_matrix velocity = mat_vec lin_damp_matrix velocity"

definition calcQuadDamping :: "mat6 \<Rightarrow> vec6 \<Rightarrow> vec6" where
  "calcQuadDamping quad_damp_matrix velocity =
     mat_vec (mat_asDiagonal quad_damp_matrix (cwiseAbs velocity)) velocity"

definition caclSimpleDamping :: "mat6 list \<Rightarrow> vec6 \<Rightarrow> error + vec6" where
  "caclSimpleDamping damp_matrices velocity =
     (if length damp_matrices \<noteq> 2
      then Inl (runtime_error ''dampMatrices does not have 2 elements.'')
      else Inr (calcLinDamping (damp_matrices ! 0) velocity
                + calcQuadDamping (damp_matrices ! 1) velocity))"

text \<open>The loop of \<^verbatim>\<open>caclGeneralQuadDamping\<close>, from index \<open>i\<close> on.\<close>

function quadDampLoop :: "mat6 list \<Rightarrow> vec6 \<Rightarrow> nat \<Rightarrow> mat6 \<Rightarrow> mat6" where
  "quadDampLoop quad_damp_matrices velocity i dampMatrix =
     (if i < length quad_damp_matrices
      then quadDampLoop quad_damp_matrices velocity (Suc i)
             (dampMatrix + mat_scale (quad_damp_matrices ! i) (coeff (cwiseAbs velocity) i))
      else dampMatrix)"
  by pat_completeness auto
termination
  by (relation "measure (\<lambda>(ds, v, i, acc). length ds - i)") auto

declare quadDampLoop.simps [simp del]

definition caclGeneralQuadDamping :: "mat6 list \<Rightarrow> vec6 \<Rightarrow> error + vec6" where
  "caclGeneralQuadDamping quad_damp_matrices velocity =
     (if length quad_damp_matrices \<noteq> 6
      then Inl (runtime_error ''quadDampMatrices does not have 6 elements.'')
      else Inr (mat_vec (quadDampLoop quad_damp_matrices velocity 0 0) velocity))"

definition calcDampingAndCoriolisEffect :: "UWVParameters \<Rightarrow> vec6 \<Rightarrow> error + vec6" where
  "calcDampingAndCoriolisEffect uwv velocity =
     (case model_type uwv of
        SIMPLE \<Rightarrow> caclSimpleDamping (damping_matrices uwv) velocity
      | COMPLEX \<Rightarrow>
          (case caclGeneralQuadDamping (damping_matrices uwv) velocity of
             Inl e \<Rightarrow> Inl e
           | Inr d \<Rightarrow> Inr (calcCoriolisEffect (inertia_matrix uwv) velocity + d))
      | INTERMEDIATE \<Rightarrow>
          (case caclSimpleDamping (damping_matrices uwv) velocity of
             Inl e \<Rightarrow> Inl e
           | Inr d \<Rightarrow> Inr (calcCoriolisEffect (inertia_matrix uwv) velocity + d)))"

subsection \<open>The two evaluations\<close>

definition calcAcceleration :: "DynamicModel \<Rightarrow> vec6 \<Rightarrow> vec6 \<Rightarrow> quaternion \<Rightarrow> error + vec6" where
  "calcAcceleration m control_input velocity orientation =
     (case checkControlInput control_input of
        Inl e \<Rightarrow> Inl e
      | Inr u \<Rightarrow>
     (case checkVelocity velocity of
        Inl e \<Rightarrow> Inl e
      | Inr u \<Rightarrow>
     (let acceleration = control_input - calcGravityBuoyancy_uwv orientation (uwv_parameters m)
      in case calcDampingAndCoriolisEffect (uwv_parameters m) velocity of
           Inl e \<Rightarrow> Inl e
         | Inr d \<Rightarrow> Inr (mat_vec (invert_inertia_matrix m) (acceleration - d)))))"

definition calcEfforts :: "DynamicModel \<Rightarrow> vec6 \<Rightarrow> vec6 \<Rightarrow> quaternion \<Rightarrow> error + vec6" where
  "calcEfforts m acceleration velocity orientation =
     (case checkAcceleration acceleration of
        Inl e \<Rightarrow> Inl e
      | Inr u \<Rightarrow>
     (case checkVelocity velocity of
        Inl e \<Rightarrow> Inl e
      | Inr u \<Rightarrow>
     (let efforts = mat_vec (inertia_matrix (uwv_parameters m)) acceleration
                    + calcGravityBuoyancy_uwv orientation (uwv_parameters m)
      in case calcDampingAndCoriolisEffect (uwv_parameters m) velocity of
           Inl e \<Rightarrow> Inl e
         | Inr d \<Rightarrow> Inr (efforts + d))))"

section \<open>Finite values and sample configurations\<close>

text \<open>A value is finite when it is neither an infinity nor NaN.\<close>

fun finite_vec3 :: "vec3 \<Rightarrow> bool" where
  "finite_vec3 (Vec3 a1 a2 a3) = (is_Fin a1 \<and> is_Fin a2 \<and> is_Fin a3)"

fun finite_vec6 :: "vec6 \<Rightarrow> bool" where
  "finite_vec6 (Vec6 a1 a2 a3 a4 a5 a6) =
     (is_Fin a1 \<and> is_Fin a2 \<and> is_Fin a3 \<and> is_Fin a4 \<and> is_Fin a5 \<and> is_Fin a6)"

fun finite_mat6 :: "mat6 \<Rightarrow> bool" where
  "finite_mat6 (Mat6 r1 r2 r3 r4 r5 r6) =
     (finite_vec6 r1 \<and> finite_vec6 r2 \<and> finite_vec6 r3 \<and>
      finite_vec6 r4 \<and> finite_vec6 r5 \<and> finite_vec6 r6)"

definition finite_quat :: "quaternion \<Rightarrow> bool" where
  "finite_quat q \<longleftrightarrow> is_Fin (qw q) \<and> is_Fin (qx q) \<and> is_Fin (qy q) \<and> is_Fin (qz q)"

definition finite_parameters :: "UWVParameters \<Rightarrow> bool" where
  "finite_parameters uwv \<longleftrightarrow>
     finite_mat6 (inertia_matrix uwv) \<and> list_all finite_mat6 (damping_matrices uwv) \<and>
     finite_vec3 (distance_body2centerofbuoyancy uwv) \<and>
     finite_vec3 (distance_body2centerofgravity uwv) \<and>
     is_Fin (weight uwv) \<and> is_Fin (buoyancy uwv)"

text \<open>The number of damping matrices that the evaluation of each model type asks for.\<close>

definition damping_count_matches :: "UWVParameters \<Rightarrow> bool" where
  "damping_count_matches uwv \<longleftrightarrow>
     length (damping_matrices uwv) = (if model_type uwv = COMPLEX then 6 else 2)"

definition example_SIMPLE :: UWVParameters where
  "example_SIMPLE =
     \<lparr>model_type = SIMPLE, inertia_matrix = 1, damping_matrices = [0, 0],
      distance_body2centerofbuoyancy = 0, distance_body2centerofgravity = 0,
      weight = 1, buoyancy = 1\<rparr>"

definition example_SIMPLE_damped :: UWVParameters where
  "example_SIMPLE_damped = example_SIMPLE\<lparr>damping_matrices := [1, 1]\<rparr>"

definition example_COMPLEX_2 :: UWVParameters where
  "example_COMPLEX_2 = example_SIMPLE\<lparr>model_type := COMPLEX\<rparr>"

definition example_COMPLEX_6 :: UWVParameters where
  "example_COMPLEX_6 =
     example_SIMPLE\<lparr>model_type := COMPLEX, damping_matrices := [1, 0, 1, 0, 0, 0]\<rparr>"

definition example_INTERMEDIATE_2 :: UWVParameters where
  "example_INTERMEDIATE_2 =
     example_SIMPLE\<lparr>model_type := INTERMEDIATE, damping_matrices := [1, 1]\<rparr>"

definition example_INTERMEDIATE_3 :: UWVParameters where
  "example_INTERMEDIATE_3 =
     example_SIMPLE\<lparr>model_type := INTERMEDIATE, damping_matrices := [0, 0, 0]\<rparr>"

definition example_model :: DynamicModel where
  "example_model = \<lparr>uwv_parameters = example_SIMPLE, invert_inertia_matrix = 1\<rparr>"

definition quat_identity :: quaternion where
  "quat_identity = \<lparr>qw = 1, qx = 0, qy = 0, qz = 0\<rparr>"

definition quat_NaN :: quaternion where
  "quat_NaN = \<lparr>qw = NaN, qx = 0, qy = 0, qz = 0\<rparr>"

definition example_velocity :: vec6 where
  "example_velocity = Vec6 (Fin 1) (Fin (- 2)) (Fin 0) (Fin 3) (Fin 0) (Fin (- 1))"

definition example_neutral :: UWVParameters where
  "example_neutral =
     example_SIMPLE\<lparr>distance_body2centerofbuoyancy := Vec3 (Fin 1) (Fin 2) (Fin (- 1)),
                    distance_body2centerofgravity := Vec3 (Fin 1) (Fin 2) (Fin (- 1)),
                    weight := Fin 3, buoyancy := Fin 3\<rparr>"

definition quat_example :: quaternion where
  "quat_example = \<lparr>qw = Fin 1, qx = Fin 2, qy = Fin 0, qz = Fin (- 1)\<rparr>"

definition example_inertia :: mat6 where
  "example_inertia =
     Mat6 (Vec6 (Fin 2) (Fin 0) (Fin 0) (Fin 0) (Fin 1) (Fin 0))
          (Vec6 (Fin 0) (Fin 2) (Fin 0) (Fin 0) (Fin 0) (Fin 0))
          (Vec6 (Fin 0) (Fin 0) (Fin 3) (Fin 0) (Fin 0) (Fin 0))
          (Vec6 (Fin 0) (Fin 0) (Fin 0) (Fin 1) (Fin 0) (Fin 0))
          (Vec6 (Fin 1) (Fin 0) (Fin 0) (Fin 0) (Fin 4) (Fin 0))
          (Vec6 (Fin 0) (Fin 0) (Fin 0) (Fin 0) (Fin 0) (Fin 5))"

definition example_inverse_inertia :: mat6 where
  "example_inverse_inertia =
     Mat6 (Vec6 (Fin (4 / 7)) (Fin 0) (Fin 0) (Fin 0) (Fin (- 1 / 7)) (Fin 0))
          (Vec6 (Fin 0) (Fin (1 / 2)) (Fin 0) (Fin 0) (Fin 0) (Fin 0))
          (Vec6 (Fin 0) (Fin 0) (Fin (1 / 3)) (Fin 0) (Fin 0) (Fin 0))
          (Vec6 (Fin 0) (Fin 0) (Fin 0) (Fin 1) (Fin 0) (Fin 0))
          (Vec6 (Fin (- 1 / 7)) (Fin 0) (Fin 0) (Fin 0) (Fin (2 / 7)) (Fin 0))
          (Vec6 (Fin 0) (Fin 0) (Fin 0) (Fin 0) (Fin 0) (Fin (1 / 5)))"

definition example_model_INTERMEDIATE :: DynamicModel where
  "example_model_INTERMEDIATE =
     \<lparr>uwv_parameters =
        example_neutral\<lparr>model_type := INTERMEDIATE, inertia_matrix := example_inertia,
                        damping_matrices := [1, example_inertia], weight := Fin 5\<rparr>,
      invert_inertia_matrix = example_inverse_inertia\<rparr>"

text \<open>A stand-in for the singular value solver in the sample calls: it solves
  \<open>M X = B\<close> when \<open>M\<close> is the sample inertia matrix or the identity.\<close>

definition sample_solve :: "mat6 \<Rightarrow> mat6 \<Rightarrow> mat6" where
  "sample_solve M B = (if M = example_inertia then mat_mat example_inverse_inertia B else B)"

text \<open>A quaternion with two coefficients \<open>2 ^ - 520\<close>: finite, with a finite inverse
  of coefficients \<open>2 ^ 519\<close> and \<open>- 2 ^ 519\<close>.\<close>

definition quat_tiny :: quaternion where
  "quat_tiny = \<lparr>qw = Fin (1 / 2 ^ 520), qx = Fin (1 / 2 ^ 520), qy = 0, qz = 0\<rparr>"

definition zero_or_NaN :: "double \<Rightarrow> bool" where
  "zero_or_NaN a \<longleftrightarrow> a = Fin 0 \<or> a = NaN"

section \<open>Basic facts\<close>

lemma overflow_threshold_large: "1000000 < overflow_threshold"
  by (simp add: overflow_threshold_def)

lemma overflow_small: "\<bar>x\<bar> \<le> 1000000 \<Longrightarrow> overflow x = Fin x"
  using overflow_threshold_large by (auto simp: overflow_def)

lemma overflow_large: "overflow_threshold \<le> x \<Longrightarrow> overflow x = PInf"
  by (simp add: overflow_def)

lemma overflow_zero: "overflow 0 = Fin 0"
  by (simp add: overflow_small)

lemmas double_simps =
  zero_double_def one_double_def minus_double_def overflow_zero overflow_small
  zero_vec3_def zero_vec6_def zero_mat6_def one_mat6_def

lemmas example_simps =
  example_SIMPLE_def example_SIMPLE_damped_def example_COMPLEX_2_def example_COMPLEX_6_def
  example_INTERMEDIATE_2_def example_INTERMEDIATE_3_def example_model_def quat_identity_def
  quat_NaN_def example_velocity_def example_neutral_def quat_example_def example_inertia_def
  example_inverse_inertia_def example_model_INTERMEDIATE_def

lemmas check_simps =
  checkParameters_def checkControlInput_def checkVelocity_def checkAcceleration_def

lemmas gravity_simps =
  calcGravityBuoyancy_uwv_def calcGravityBuoyancy_def transformVector_def quat_inverse_def
  squaredNorm_def quat_vec_def Let_def

lemmas damping_simps =
  calcDampingAndCoriolisEffect_def caclSimpleDamping_def caclGeneralQuadDamping_def
  calcLinDamping_def calcQuadDamping_def calcCoriolisEffect_def Let_def

lemma hasNaN_iff_coeff: "hasNaN v \<longleftrightarrow> (\<exists>i<6. isnan (coeff v i))"
proof (cases v)
  case (Vec6 a1 a2 a3 a4 a5 a6)
  show ?thesis
  proof
    assume "hasNaN v"
    then consider "isnan (coeff v 0)" | "isnan (coeff v 1)" | "isnan (coeff v 2)"
      | "isnan (coeff v 3)" | "isnan (coeff v 4)" | "isnan (coeff v 5)"
      using Vec6 by auto
    then show "\<exists>i<6. isnan (coeff v i)"
      by cases (rule exI [of _ 0], simp, rule exI [of _ 1], simp, rule exI [of _ 2], simp,
                rule exI [of _ 3], simp, rule exI [of _ 4], simp, rule exI [of _ 5], simp)
  next
    assume "\<exists>i<6. isnan (coeff v i)"
    then show "hasNaN v"
      using Vec6 by (auto split: if_splits)
  qed
qed

text \<open>Adding the zero matrix to a scaled matrix changes nothing: a product is never a
  finite value beyond the threshold.\<close>

lemma zero_plus_overflow: "(0::double) + overflow x = overflow x"
  by (simp add: overflow_def zero_double_def)

lemma zero_plus_times: "(0::double) + a * b = a * b"
  by (cases a; cases b) (simp_all add: zero_plus_overflow, simp_all add: zero_double_def)

lemma zero_plus_scale6: "(0::vec6) + scale6 r s = scale6 r s"
  by (cases r) (simp add: zero_vec6_def zero_plus_times)

lemma zero_plus_mat_scale: "(0::mat6) + mat_scale A s = mat_scale A s"
  by (cases A) (simp add: zero_mat6_def zero_plus_scale6)

lemma quadDampLoop_six:
  "quadDampLoop [D0, D1, D2, D3, D4, D5] (Vec6 v1 v2 v3 v4 v5 v6) 0 A =
     A + mat_scale D0 \<bar>v1\<bar> + mat_scale D1 \<bar>v2\<bar> + mat_scale D2 \<bar>v3\<bar>
       + mat_scale D3 \<bar>v4\<bar> + mat_scale D4 \<bar>v5\<bar> + mat_scale D5 \<bar>v6\<bar>"
  by (simp add: quadDampLoop.simps)

lemma plus_double_commute: "(a::double) + b = b + a"
  by (cases a; cases b) (simp_all add: add.commute)

lemma plus_vec6_commute: "(u::vec6) + v = v + u"
  by (cases u; cases v) (simp add: plus_double_commute)

lemma zero_or_NaN_mult: "zero_or_NaN (Fin 0 * a)"
  by (cases a) (simp_all add: zero_or_NaN_def overflow_zero)

lemma zero_or_NaN_add: "zero_or_NaN a \<Longrightarrow> zero_or_NaN b \<Longrightarrow> zero_or_NaN (a + b)"
  by (auto simp: zero_or_NaN_def overflow_zero)

text \<open>No matrix is an inverse of the zero matrix, whatever its coefficients.\<close>

lemma zero_matrix_no_inverse: "\<not> is_inverse_of X 0"
proof
  assume "is_inverse_of X 0"
  then have 1: "mat_mat X 0 = 1"
    by (simp add: is_inverse_of_def)
  obtain r1 r2 r3 r4 r5 r6 where X: "X = Mat6 r1 r2 r3 r4 r5 r6"
    by (cases X)
  obtain a1 a2 a3 a4 a5 a6 where r: "r1 = Vec6 a1 a2 a3 a4 a5 a6"
    by (cases r1)
  have "zero_or_NaN (Fin 0 * a1 + Fin 0 * a2 + Fin 0 * a3 + Fin 0 * a4 + Fin 0 * a5 + Fin 0 * a6)"
    by (intro zero_or_NaN_add zero_or_NaN_mult)
  moreover have "Fin 0 * a1 + Fin 0 * a2 + Fin 0 * a3 + Fin 0 * a4 + Fin 0 * a5 + Fin 0 * a6 = Fin 1"
    using 1 by (simp add: X r double_simps)
  ultimately show False
    by (simp add: zero_or_NaN_def)
qed

subsection \<open>Finite values\<close>

lemma is_FinE: "is_Fin a \<Longrightarrow> (\<And>x. a = Fin x \<Longrightarrow> P) \<Longrightarrow> P"
  by (cases a) simp_all

lemma finite_vec3E:
  "finite_vec3 v \<Longrightarrow> (\<And>x1 x2 x3. v = Vec3 (Fin x1) (Fin x2) (Fin x3) \<Longrightarrow> P) \<Longrightarrow> P"
  by (cases v) (auto elim!: is_FinE)

lemma finite_vec6E:
  "finite_vec6 v \<Longrightarrow>
   (\<And>x1 x2 x3 x4 x5 x6. v = Vec6 (Fin x1) (Fin x2) (Fin x3) (Fin x4) (Fin x5) (Fin x6) \<Longrightarrow> P) \<Longrightarrow> P"
  by (cases v) (auto elim!: is_FinE)

lemma finite_quatE:
  "finite_quat q \<Longrightarrow> (\<And>w x y z. q = \<lparr>qw = Fin w, qx = Fin x, qy = Fin y, qz = Fin z\<rparr> \<Longrightarrow> P) \<Longrightarrow> P"
  by (cases q) (auto simp: finite_quat_def elim!: is_FinE)

subsection \<open>Infinite coefficients\<close>

text \<open>Outside the finite values the algebra fails: an infinite coefficient of the
  inertia matrix, or of the orientation, turns zero terms into NaN.\<close>

lemma infinite_coefficient_gives_NaN:
  "calcCoriolisEffect (Mat6 (Vec6 PInf 0 0 0 0 0) 0 0 0 0 0) 0 =
     Vec6 (Fin 0) NaN NaN (Fin 0) NaN NaN \<and>
   calcGravityBuoyancy \<lparr>qw = PInf, qx = 0, qy = 0, qz = 0\<rparr> 1 1 0 0 =
     Vec6 NaN NaN NaN NaN NaN NaN"
  by (simp add: calcCoriolisEffect_def gravity_simps double_simps)

section \<open>Configuration is atomic\<close>

text \<open>
  C6. Whenever \<^verbatim>\<open>setUWVParameters\<close> raises, the error is an \<^verbatim>\<open>invalid_argument\<close> and the
  model is the one before the call: \<^verbatim>\<open>getUWVParameters\<close> returns the previous parameter
  set and the cached inverse inertia matrix is the previous one. When it returns, the
  parameter set is the new one and the cached matrix is the one computed from the new
  inertia matrix.
\<close>

theorem setUWVParameters_atomic:
  "(fst (setUWVParameters svd_solve p m) = Inl e \<longrightarrow>
      (\<exists>msg. e = invalid_argument msg) \<and>
      snd (setUWVParameters svd_solve p m) = m \<and>
      getUWVParameters (snd (setUWVParameters svd_solve p m)) = getUWVParameters m \<and>
      invert_inertia_matrix (snd (setUWVParameters svd_solve p m)) = invert_inertia_matrix m) \<and>
   (fst (setUWVParameters svd_solve p m) = Inr () \<longrightarrow>
      getUWVParameters (snd (setUWVParameters svd_solve p m)) = p \<and>
      invert_inertia_matrix (snd (setUWVParameters svd_solve p m)) =
        calcInvInertiaMatrix svd_solve (inertia_matrix p))"
  by (auto simp: setUWVParameters_def getUWVParameters_def checkParameters_def Let_def
           split: sum.splits if_splits)

theorem setUWVParameters_atomic_witness:
  "fst (setUWVParameters (\<lambda>M B. B) example_COMPLEX_2 example_model) =
     Inl (invalid_argument ''in COMPLEX model, damping_matrices should have six elements, one quadratic damping matrix / DOF'') \<and>
   getUWVParameters (snd (setUWVParameters (\<lambda>M B. B) example_COMPLEX_2 example_model)) =
     example_SIMPLE \<and>
   invert_inertia_matrix (snd (setUWVParameters (\<lambda>M B. B) example_COMPLEX_2 example_model)) = 1 \<and>
   fst (setUWVParameters (\<lambda>M B. B) example_COMPLEX_6 example_model) = Inr () \<and>
   getUWVParameters (snd (setUWVParameters (\<lambda>M B. B) example_COMPLEX_6 example_model)) =
     example_COMPLEX_6"
proof -
  let ?e = "invalid_argument ''in COMPLEX model, damping_matrices should have six elements, one quadratic damping matrix / DOF''"
  have bad: "fst (setUWVParameters (\<lambda>M B. B) example_COMPLEX_2 example_model) = Inl ?e"
    by (simp add: setUWVParameters_def checkParameters_def example_simps)
  have good: "fst (setUWVParameters (\<lambda>M B. B) example_COMPLEX_6 example_model) = Inr ()"
    by (simp add: setUWVParameters_def checkParameters_def example_simps double_simps)
  have old: "getUWVParameters example_model = example_SIMPLE"
       "invert_inertia_matrix example_model = 1"
    by (simp_all add: getUWVParameters_def example_model_def)
  show ?thesis
    using setUWVParameters_atomic [of "\<lambda>M B. B" example_COMPLEX_2 example_model ?e]
      setUWVParameters_atomic [of "\<lambda>M B. B" example_COMPLEX_6 example_model] bad good old
    by simp
qed

section \<open>Inputs with NaN are rejected\<close>

text \<open>
  C7. \<^verbatim>\<open>calcAcceleration\<close> raises a \<^verbatim>\<open>runtime_error\<close> whenever the control input or the
  velocity has a NaN, in whichever of the six components of the velocity the NaN is, and
  \<^verbatim>\<open>calcEfforts\<close> raises one whenever the acceleration or the velocity has a NaN. The
  error is that of the input check, whatever the model and the orientation are: it is
  raised before anything is computed.
\<close>

theorem nan_input_rejected:
  "(hasNaN control_input \<longrightarrow>
      calcAcceleration m control_input velocity orientation =
        Inl (runtime_error ''DynamicModel checkControlInput: control input is unset'')) \<and>
   (\<not> hasNaN control_input \<and> i < 6 \<and> isnan (coeff velocity i) \<longrightarrow>
      calcAcceleration m control_input velocity orientation =
        Inl (runtime_error ''DynamicModel checkVelocity: velocity is unset'')) \<and>
   (hasNaN acceleration \<longrightarrow>
      calcEfforts m acceleration velocity orientation =
        Inl (runtime_error ''DynamicModel checkAcceleration: acceleration is unset'')) \<and>
   (\<not> hasNaN acceleration \<and> i < 6 \<and> isnan (coeff velocity i) \<longrightarrow>
      calcEfforts m acceleration velocity orientation =
        Inl (runtime_error ''DynamicModel checkVelocity: velocity is unset''))"
proof -
  have "hasNaN velocity" if "i < 6" "isnan (coeff velocity i)"
    using that hasNaN_iff_coeff by blast
  then show ?thesis
    by (simp add: calcAcceleration_def calcEfforts_def check_simps)
qed

theorem nan_input_rejected_witness:
  "hasNaN (Vec6 0 NaN 0 0 0 0) \<and>
   calcAcceleration \<lparr>uwv_parameters = example_INTERMEDIATE_3, invert_inertia_matrix = 1\<rparr>
       (Vec6 0 NaN 0 0 0 0) (Vec6 0 0 0 0 NaN 0) quat_identity =
     Inl (runtime_error ''DynamicModel checkControlInput: control input is unset'') \<and>
   \<not> hasNaN (0::vec6) \<and> (4::nat) < 6 \<and> isnan (coeff (Vec6 0 0 0 0 NaN 0) 4) \<and>
   calcAcceleration \<lparr>uwv_parameters = example_INTERMEDIATE_3, invert_inertia_matrix = 1\<rparr>
       0 (Vec6 0 0 0 0 NaN 0) quat_identity =
     Inl (runtime_error ''DynamicModel checkVelocity: velocity is unset'') \<and>
   calcEfforts \<lparr>uwv_parameters = example_INTERMEDIATE_3, invert_inertia_matrix = 1\<rparr>
       (Vec6 0 NaN 0 0 0 0) (Vec6 0 0 0 0 NaN 0) quat_identity =
     Inl (runtime_error ''DynamicModel checkAcceleration: acceleration is unset'') \<and>
   calcEfforts \<lparr>uwv_parameters = example_INTERMEDIATE_3, invert_inertia_matrix = 1\<rparr>
       0 (Vec6 0 0 0 0 NaN 0) quat_identity =
     Inl (runtime_error ''DynamicModel checkVelocity: velocity is unset'')"
proof -
  have h: "hasNaN (Vec6 0 NaN 0 0 0 0)" "\<not> hasNaN (0::vec6)" "(4::nat) < 6"
      "isnan (coeff (Vec6 0 0 0 0 NaN 0) 4)"
    by (simp_all add: double_simps)
  show ?thesis
    using h
      nan_input_rejected [of "Vec6 0 NaN 0 0 0 0"
        "\<lparr>uwv_parameters = example_INTERMEDIATE_3, invert_inertia_matrix = 1\<rparr>"
        "Vec6 0 0 0 0 NaN 0" quat_identity 4 "Vec6 0 NaN 0 0 0 0"]
      nan_input_rejected [of 0
        "\<lparr>uwv_parameters = example_INTERMEDIATE_3, invert_inertia_matrix = 1\<rparr>"
        "Vec6 0 0 0 0 NaN 0" quat_identity 4 0]
    by simp
qed

section \<open>The equation of motion\<close>

text \<open>
  With the number of damping matrices that the evaluation of the model type asks for, the
  damping and Coriolis term is computed, and for inputs without NaN the two evaluations
  return the two sides of the equation of motion.
\<close>

lemma damping_returns_when_count_matches:
  "damping_count_matches uwv \<Longrightarrow> \<exists>d. calcDampingAndCoriolisEffect uwv v = Inr d"
  by (cases "model_type uwv")
     (simp_all add: damping_count_matches_def calcDampingAndCoriolisEffect_def
        caclSimpleDamping_def caclGeneralQuadDamping_def)

lemma equation_of_motion_when_count_matches:
  assumes "damping_count_matches (uwv_parameters m)" and "\<not> hasNaN velocity"
  shows "\<exists>d. calcDampingAndCoriolisEffect (uwv_parameters m) velocity = Inr d \<and>
     (\<not> hasNaN control_input \<longrightarrow>
        calcAcceleration m control_input velocity orientation =
          Inr (mat_vec (invert_inertia_matrix m)
                 (control_input - calcGravityBuoyancy_uwv orientation (uwv_parameters m) - d))) \<and>
     (\<not> hasNaN acceleration \<longrightarrow>
        calcEfforts m acceleration velocity orientation =
          Inr (mat_vec (inertia_matrix (uwv_parameters m)) acceleration
               + calcGravityBuoyancy_uwv orientation (uwv_parameters m) + d))"
proof -
  obtain d where "calcDampingAndCoriolisEffect (uwv_parameters m) velocity = Inr d"
    using damping_returns_when_count_matches [OF assms(1)] by blast
  then show ?thesis
    using assms(2) by (simp add: calcAcceleration_def calcEfforts_def check_simps Let_def)
qed

text \<open>
  C2. The claim: for every current parameter set and every input without NaN,
  \<^verbatim>\<open>calcAcceleration\<close> returns the cached inverse inertia matrix times (control input
  minus gravity and buoyancy minus damping and Coriolis), and \<^verbatim>\<open>calcEfforts\<close> returns
  inertia matrix times acceleration plus gravity and buoyancy plus damping and Coriolis.
  The code at the \<^verbatim>\<open>INTERMEDIATE\<close> parameter set with three damping matrices, which
  \<^verbatim>\<open>setUWVParameters\<close> accepts and makes the current one: for a velocity and a second
  vector without NaN, neither evaluation returns; both raise the \<^verbatim>\<open>runtime_error\<close> of
  \<^verbatim>\<open>caclSimpleDamping\<close>.
\<close>

theorem equation_of_motion_raises_INTERMEDIATE_3:
  "fst (setUWVParameters sample_solve example_INTERMEDIATE_3 example_model) = Inr () \<and>
   getUWVParameters (snd (setUWVParameters sample_solve example_INTERMEDIATE_3 example_model)) =
     example_INTERMEDIATE_3 \<and>
   \<not> hasNaN example_velocity \<and>
   calcAcceleration (snd (setUWVParameters sample_solve example_INTERMEDIATE_3 example_model))
       example_velocity example_velocity quat_identity =
     Inl (runtime_error ''dampMatrices does not have 2 elements.'') \<and>
   calcEfforts (snd (setUWVParameters sample_solve example_INTERMEDIATE_3 example_model))
       example_velocity example_velocity quat_identity =
     Inl (runtime_error ''dampMatrices does not have 2 elements.'')"
proof -
  let ?m = "snd (setUWVParameters sample_solve example_INTERMEDIATE_3 example_model)"
  have c: "checkParameters example_INTERMEDIATE_3 = Inr ()"
    by (simp add: checkParameters_def example_simps double_simps)
  have a: "fst (setUWVParameters sample_solve example_INTERMEDIATE_3 example_model) = Inr ()"
    by (simp add: setUWVParameters_def c Let_def)
  have m: "uwv_parameters ?m = example_INTERMEDIATE_3"
    by (simp add: setUWVParameters_def c Let_def)
  have d: "calcDampingAndCoriolisEffect example_INTERMEDIATE_3 example_velocity =
      Inl (runtime_error ''dampMatrices does not have 2 elements.'')"
    by (simp add: calcDampingAndCoriolisEffect_def caclSimpleDamping_def example_simps)
  have n: "\<not> hasNaN example_velocity"
    by (simp add: example_velocity_def)
  show ?thesis
    by (simp add: a m d n getUWVParameters_def calcAcceleration_def calcEfforts_def
        checkControlInput_def checkAcceleration_def checkVelocity_def Let_def)
qed

text \<open>A sample with two damping matrices, where both evaluations return.\<close>

lemma equation_of_motion_sample:
  "calcAcceleration \<lparr>uwv_parameters = example_INTERMEDIATE_2, invert_inertia_matrix = 1\<rparr>
       example_velocity example_velocity quat_identity =
     Inr (Vec6 (Fin 1) (Fin 5) (Fin 6) (Fin (- 9)) (Fin 0) (Fin 1)) \<and>
   calcEfforts \<lparr>uwv_parameters = example_INTERMEDIATE_2, invert_inertia_matrix = 1\<rparr>
       example_velocity example_velocity quat_identity =
     Inr (Vec6 (Fin 1) (Fin (- 9)) (Fin (- 6)) (Fin 15) (Fin 0) (Fin (- 3)))"
proof -
  have h: "\<not> hasNaN example_velocity"
    by (simp add: example_velocity_def)
  have d: "calcDampingAndCoriolisEffect example_INTERMEDIATE_2 example_velocity =
      Inr (Vec6 (Fin 0) (Fin (- 7)) (Fin (- 6)) (Fin 12) (Fin 0) (Fin (- 2)))"
    by (simp add: damping_simps example_simps double_simps)
  have g: "calcGravityBuoyancy_uwv quat_identity example_INTERMEDIATE_2 = 0"
    by (simp add: gravity_simps example_simps double_simps)
  have M: "inertia_matrix example_INTERMEDIATE_2 = 1"
    by (simp add: example_simps)
  show ?thesis
    by (simp add: calcAcceleration_def calcEfforts_def check_simps h d g M Let_def)
       (simp add: example_velocity_def double_simps)
qed

section \<open>Dispatch on the model type\<close>

text \<open>
  C4. For every velocity, the damping and Coriolis term is: for \<^verbatim>\<open>SIMPLE\<close>, the first
  damping matrix times the velocity plus the second damping matrix times the diagonal
  matrix of the absolute velocity times the velocity, with no Coriolis term; for
  \<^verbatim>\<open>INTERMEDIATE\<close>, the same sum plus the Coriolis term; for \<^verbatim>\<open>COMPLEX\<close>, the sum of the
  six damping matrices, each scaled by the absolute value of its velocity component,
  times the velocity, plus the Coriolis term. The evaluation raises a \<^verbatim>\<open>runtime_error\<close>
  when the number of damping matrices is not 2 for \<^verbatim>\<open>SIMPLE\<close> and \<^verbatim>\<open>INTERMEDIATE\<close>, and
  when it is not 6 for \<^verbatim>\<open>COMPLEX\<close>.
\<close>

theorem fidelity_dispatch:
  "(model_type uwv = SIMPLE \<and> damping_matrices uwv = [Dlin, Dquad] \<longrightarrow>
      calcDampingAndCoriolisEffect uwv v =
        Inr (mat_vec Dlin v + mat_vec (mat_asDiagonal Dquad (cwiseAbs v)) v)) \<and>
   (model_type uwv = INTERMEDIATE \<and> damping_matrices uwv = [Dlin, Dquad] \<longrightarrow>
      calcDampingAndCoriolisEffect uwv v =
        Inr (mat_vec Dlin v + mat_vec (mat_asDiagonal Dquad (cwiseAbs v)) v
             + calcCoriolisEffect (inertia_matrix uwv) v)) \<and>
   (model_type uwv = COMPLEX \<and> damping_matrices uwv = [Qa, Qb, Qc, Qd, Qe, Qf] \<and>
    v = Vec6 va vb vc vd ve vf \<longrightarrow>
      calcDampingAndCoriolisEffect uwv v =
        Inr (mat_vec (mat_scale Qa \<bar>va\<bar> + mat_scale Qb \<bar>vb\<bar> + mat_scale Qc \<bar>vc\<bar>
                      + mat_scale Qd \<bar>vd\<bar> + mat_scale Qe \<bar>ve\<bar> + mat_scale Qf \<bar>vf\<bar>) v
             + calcCoriolisEffect (inertia_matrix uwv) v)) \<and>
   (model_type uwv \<noteq> COMPLEX \<and> length (damping_matrices uwv) \<noteq> 2 \<longrightarrow>
      calcDampingAndCoriolisEffect uwv v =
        Inl (runtime_error ''dampMatrices does not have 2 elements.'')) \<and>
   (model_type uwv = COMPLEX \<and> length (damping_matrices uwv) \<noteq> 6 \<longrightarrow>
      calcDampingAndCoriolisEffect uwv v =
        Inl (runtime_error ''quadDampMatrices does not have 6 elements.''))"
proof (intro conjI impI)
  assume "model_type uwv = SIMPLE \<and> damping_matrices uwv = [Dlin, Dquad]"
  then show "calcDampingAndCoriolisEffect uwv v =
      Inr (mat_vec Dlin v + mat_vec (mat_asDiagonal Dquad (cwiseAbs v)) v)"
    by (simp add: calcDampingAndCoriolisEffect_def caclSimpleDamping_def calcLinDamping_def
        calcQuadDamping_def)
next
  assume "model_type uwv = INTERMEDIATE \<and> damping_matrices uwv = [Dlin, Dquad]"
  then show "calcDampingAndCoriolisEffect uwv v =
      Inr (mat_vec Dlin v + mat_vec (mat_asDiagonal Dquad (cwiseAbs v)) v
           + calcCoriolisEffect (inertia_matrix uwv) v)"
    by (simp add: calcDampingAndCoriolisEffect_def caclSimpleDamping_def calcLinDamping_def
        calcQuadDamping_def)
       (rule plus_vec6_commute)
next
  assume "model_type uwv = COMPLEX \<and> damping_matrices uwv = [Qa, Qb, Qc, Qd, Qe, Qf] \<and>
    v = Vec6 va vb vc vd ve vf"
  then show "calcDampingAndCoriolisEffect uwv v =
      Inr (mat_vec (mat_scale Qa \<bar>va\<bar> + mat_scale Qb \<bar>vb\<bar> + mat_scale Qc \<bar>vc\<bar>
                    + mat_scale Qd \<bar>vd\<bar> + mat_scale Qe \<bar>ve\<bar> + mat_scale Qf \<bar>vf\<bar>) v
           + calcCoriolisEffect (inertia_matrix uwv) v)"
    by (simp add: calcDampingAndCoriolisEffect_def caclGeneralQuadDamping_def
        quadDampLoop_six zero_plus_mat_scale)
       (rule plus_vec6_commute)
next
  assume "model_type uwv \<noteq> COMPLEX \<and> length (damping_matrices uwv) \<noteq> 2"
  then show "calcDampingAndCoriolisEffect uwv v =
      Inl (runtime_error ''dampMatrices does not have 2 elements.'')"
    by (cases "model_type uwv")
       (simp_all add: calcDampingAndCoriolisEffect_def caclSimpleDamping_def)
next
  assume "model_type uwv = COMPLEX \<and> length (damping_matrices uwv) \<noteq> 6"
  then show "calcDampingAndCoriolisEffect uwv v =
      Inl (runtime_error ''quadDampMatrices does not have 6 elements.'')"
    by (simp add: calcDampingAndCoriolisEffect_def caclGeneralQuadDamping_def)
qed

theorem fidelity_dispatch_witness:
  "model_type example_SIMPLE_damped = SIMPLE \<and>
   damping_matrices example_SIMPLE_damped = [1, 1] \<and>
   calcDampingAndCoriolisEffect example_SIMPLE_damped example_velocity =
     Inr (Vec6 (Fin 2) (Fin (- 6)) (Fin 0) (Fin 12) (Fin 0) (Fin (- 2))) \<and>
   model_type example_INTERMEDIATE_2 = INTERMEDIATE \<and>
   damping_matrices example_INTERMEDIATE_2 = [1, 1] \<and>
   calcDampingAndCoriolisEffect example_INTERMEDIATE_2 example_velocity =
     Inr (Vec6 (Fin 0) (Fin (- 7)) (Fin (- 6)) (Fin 12) (Fin 0) (Fin (- 2))) \<and>
   model_type example_COMPLEX_6 = COMPLEX \<and>
   damping_matrices example_COMPLEX_6 = [1, 0, 1, 0, 0, 0] \<and>
   calcDampingAndCoriolisEffect example_COMPLEX_6 example_velocity =
     Inr (Vec6 (Fin (- 1)) (Fin (- 3)) (Fin (- 6)) (Fin 3) (Fin 0) (Fin (- 1))) \<and>
   model_type example_INTERMEDIATE_3 \<noteq> COMPLEX \<and>
   length (damping_matrices example_INTERMEDIATE_3) \<noteq> 2 \<and>
   calcDampingAndCoriolisEffect example_INTERMEDIATE_3 example_velocity =
     Inl (runtime_error ''dampMatrices does not have 2 elements.'') \<and>
   model_type example_COMPLEX_2 = COMPLEX \<and>
   length (damping_matrices example_COMPLEX_2) \<noteq> 6 \<and>
   calcDampingAndCoriolisEffect example_COMPLEX_2 example_velocity =
     Inl (runtime_error ''quadDampMatrices does not have 6 elements.'')"
proof -
  have h: "model_type example_SIMPLE_damped = SIMPLE"
      "damping_matrices example_SIMPLE_damped = [1, 1]"
      "model_type example_INTERMEDIATE_2 = INTERMEDIATE"
      "damping_matrices example_INTERMEDIATE_2 = [1, 1]"
      "model_type example_COMPLEX_6 = COMPLEX"
      "damping_matrices example_COMPLEX_6 = [1, 0, 1, 0, 0, 0]"
      "model_type example_INTERMEDIATE_3 \<noteq> COMPLEX"
      "length (damping_matrices example_INTERMEDIATE_3) \<noteq> 2"
      "model_type example_COMPLEX_2 = COMPLEX"
      "length (damping_matrices example_COMPLEX_2) \<noteq> 6"
      "inertia_matrix example_INTERMEDIATE_2 = 1"
      "inertia_matrix example_COMPLEX_6 = 1"
    by (simp_all add: example_simps)
  have c: "calcCoriolisEffect 1 example_velocity =
      Vec6 (Fin (- 2)) (Fin (- 1)) (Fin (- 6)) (Fin 0) (Fin 0) (Fin 0)"
    by (simp add: calcCoriolisEffect_def example_velocity_def double_simps)
  have s: "calcDampingAndCoriolisEffect example_SIMPLE_damped example_velocity =
      Inr (Vec6 (Fin 2) (Fin (- 6)) (Fin 0) (Fin 12) (Fin 0) (Fin (- 2)))"
    using h fidelity_dispatch [where uwv = example_SIMPLE_damped and v = example_velocity
        and Dlin = 1 and Dquad = 1]
    by (simp add: example_velocity_def double_simps)
  have i: "calcDampingAndCoriolisEffect example_INTERMEDIATE_2 example_velocity =
      Inr (Vec6 (Fin 0) (Fin (- 7)) (Fin (- 6)) (Fin 12) (Fin 0) (Fin (- 2)))"
    using h c fidelity_dispatch [where uwv = example_INTERMEDIATE_2 and v = example_velocity
        and Dlin = 1 and Dquad = 1]
    by (simp add: example_velocity_def double_simps)
  have x: "calcDampingAndCoriolisEffect example_COMPLEX_6 example_velocity =
      Inr (Vec6 (Fin (- 1)) (Fin (- 3)) (Fin (- 6)) (Fin 3) (Fin 0) (Fin (- 1)))"
    using h c fidelity_dispatch [where uwv = example_COMPLEX_6 and v = example_velocity
        and Qa = 1 and Qb = 0 and Qc = 1 and Qd = 0 and Qe = 0 and Qf = 0
        and va = "Fin 1" and vb = "Fin (- 2)" and vc = "Fin 0" and vd = "Fin 3"
        and ve = "Fin 0" and vf = "Fin (- 1)"]
    by (simp add: example_velocity_def double_simps)
  have e2: "calcDampingAndCoriolisEffect example_INTERMEDIATE_3 example_velocity =
      Inl (runtime_error ''dampMatrices does not have 2 elements.'')"
    using h fidelity_dispatch [where uwv = example_INTERMEDIATE_3 and v = example_velocity]
    by simp
  have e6: "calcDampingAndCoriolisEffect example_COMPLEX_2 example_velocity =
      Inl (runtime_error ''quadDampMatrices does not have 6 elements.'')"
    using h fidelity_dispatch [where uwv = example_COMPLEX_2 and v = example_velocity]
    by simp
  show ?thesis
    using h s i x e2 e6 by simp
qed

section \<open>What the parameter check tests\<close>

text \<open>The check rejects a parameter set in exactly four cases; none of them is about
  the \<^verbatim>\<open>INTERMEDIATE\<close> model type, and none about the inertia matrix.\<close>

lemma checkParameters_rejects_iff:
  "(\<exists>e. checkParameters uwv = Inl e) \<longleftrightarrow>
     model_type uwv = SIMPLE \<and> length (damping_matrices uwv) \<noteq> 2 \<or>
     model_type uwv = COMPLEX \<and> length (damping_matrices uwv) \<noteq> 6 \<or>
     weight uwv \<le> 0 \<or> buoyancy uwv \<le> 0"
  by (simp add: checkParameters_def)

text \<open>
  C3. The claim: \<^verbatim>\<open>setUWVParameters\<close> rejects a parameter set exactly when the model type
  is \<^verbatim>\<open>SIMPLE\<close> or \<^verbatim>\<open>INTERMEDIATE\<close> and the number of damping matrices is not 2, or the
  model type is \<^verbatim>\<open>COMPLEX\<close> and the number is not 6, or weight or buoyancy is not
  positive. The code at an \<^verbatim>\<open>INTERMEDIATE\<close> parameter set with three damping matrices:
  the check passes, \<^verbatim>\<open>setUWVParameters\<close> returns and stores the set, and the next
  \<^verbatim>\<open>calcAcceleration\<close> raises the \<^verbatim>\<open>runtime_error\<close> of \<^verbatim>\<open>caclSimpleDamping\<close>, which asks
  for two matrices.
\<close>

theorem INTERMEDIATE_count_not_checked:
  "checkParameters example_INTERMEDIATE_3 = Inr () \<and>
   fst (setUWVParameters svd_solve example_INTERMEDIATE_3 m) = Inr () \<and>
   getUWVParameters (snd (setUWVParameters svd_solve example_INTERMEDIATE_3 m)) =
     example_INTERMEDIATE_3 \<and>
   calcAcceleration (snd (setUWVParameters svd_solve example_INTERMEDIATE_3 m)) 0 0 quat_identity =
     Inl (runtime_error ''dampMatrices does not have 2 elements.'')"
proof -
  have c: "checkParameters example_INTERMEDIATE_3 = Inr ()"
    by (simp add: checkParameters_def example_simps double_simps)
  have p: "uwv_parameters (snd (setUWVParameters svd_solve example_INTERMEDIATE_3 m)) =
      example_INTERMEDIATE_3"
    by (simp add: setUWVParameters_def c Let_def)
  have d: "calcDampingAndCoriolisEffect example_INTERMEDIATE_3 0 =
      Inl (runtime_error ''dampMatrices does not have 2 elements.'')"
    by (simp add: calcDampingAndCoriolisEffect_def caclSimpleDamping_def example_simps)
  have n: "\<not> hasNaN (0::vec6)"
    by (simp add: double_simps)
  have f: "fst (setUWVParameters svd_solve example_INTERMEDIATE_3 m) = Inr ()"
    by (simp add: setUWVParameters_def c Let_def)
  show ?thesis
    by (simp add: c f p d n getUWVParameters_def calcAcceleration_def checkControlInput_def
        checkVelocity_def Let_def)
qed

section \<open>The inertia matrix at configuration\<close>

text \<open>
  \<^verbatim>\<open>setUWVParameters\<close> does not look at the inertia matrix: the outcome of the check is
  the same for every inertia matrix, and a parameter set that passes the check is stored
  with any inertia matrix \<open>M\<close>, the cached matrix being what the call of the singular
  value solver returns for \<open>M\<close> and the identity. What the solver of Eigen returns is not
  part of the model.
\<close>

lemma inertia_matrix_not_inspected:
  "checkParameters (uwv\<lparr>inertia_matrix := M\<rparr>) = checkParameters uwv \<and>
   (checkParameters uwv = Inr () \<longrightarrow>
      setUWVParameters svd_solve (uwv\<lparr>inertia_matrix := M\<rparr>) m =
        (Inr (), \<lparr>uwv_parameters = uwv\<lparr>inertia_matrix := M\<rparr>,
                  invert_inertia_matrix = svd_solve M 1\<rparr>))"
proof -
  have c: "checkParameters (uwv\<lparr>inertia_matrix := M\<rparr>) = checkParameters uwv"
    by (simp add: checkParameters_def)
  show ?thesis
    by (cases m) (simp add: c setUWVParameters_def calcInvInertiaMatrix_def Let_def)
qed

text \<open>The zero matrix, which has no inverse, is accepted with the sample parameters.\<close>

lemma zero_inertia_matrix_accepted:
  "checkParameters (example_SIMPLE\<lparr>inertia_matrix := 0\<rparr>) = Inr () \<and>
   (\<forall>X. \<not> is_inverse_of X 0) \<and>
   fst (setUWVParameters svd_solve (example_SIMPLE\<lparr>inertia_matrix := 0\<rparr>) example_model) =
     Inr ()"
proof -
  have c: "checkParameters (example_SIMPLE\<lparr>inertia_matrix := 0\<rparr>) = Inr ()"
    by (simp add: checkParameters_def example_simps double_simps)
  show ?thesis
    using zero_matrix_no_inverse by (simp add: c setUWVParameters_def Let_def)
qed

section \<open>The Coriolis term\<close>

text \<open>
  C5. For every inertia matrix \<open>M\<close> and velocity \<open>v\<close>, with \<open>p = M v\<close>, the Coriolis term
  is the negation of the 6-vector made of \<open>p.linear \<times> v.angular\<close> and of
  \<open>p.linear \<times> v.linear + p.angular \<times> v.angular\<close>; the second conjunct writes it out by
  coefficient. It is the zero vector at the zero velocity, for every inertia matrix of
  real numbers.
\<close>

theorem coriolis_effect:
  "calcCoriolisEffect M v =
     - comma6 (cross (head3 (mat_vec M v)) (tail3 v))
              (cross (head3 (mat_vec M v)) (head3 v) + cross (tail3 (mat_vec M v)) (tail3 v)) \<and>
   (mat_vec M v = Vec6 pa pb pc pd pe pf \<and> v = Vec6 va vb vc vd ve vf \<longrightarrow>
      calcCoriolisEffect M v =
        Vec6 (- (pb * vf - pc * ve)) (- (pc * vd - pa * vf)) (- (pa * ve - pb * vd))
             (- (pb * vc - pc * vb + (pe * vf - pf * ve)))
             (- (pc * va - pa * vc + (pf * vd - pd * vf)))
             (- (pa * vb - pb * va + (pd * ve - pe * vd)))) \<and>
   (finite_mat6 M \<longrightarrow> calcCoriolisEffect M 0 = 0)"
proof (intro conjI impI)
  show "calcCoriolisEffect M v =
     - comma6 (cross (head3 (mat_vec M v)) (tail3 v))
              (cross (head3 (mat_vec M v)) (head3 v) + cross (tail3 (mat_vec M v)) (tail3 v))"
    by (simp add: calcCoriolisEffect_def Let_def)
next
  assume "mat_vec M v = Vec6 pa pb pc pd pe pf \<and> v = Vec6 va vb vc vd ve vf"
  then have "mat_vec M (Vec6 va vb vc vd ve vf) = Vec6 pa pb pc pd pe pf"
      "v = Vec6 va vb vc vd ve vf"
    by auto
  then show "calcCoriolisEffect M v =
        Vec6 (- (pb * vf - pc * ve)) (- (pc * vd - pa * vf)) (- (pa * ve - pb * vd))
             (- (pb * vc - pc * vb + (pe * vf - pf * ve)))
             (- (pc * va - pa * vc + (pf * vd - pd * vf)))
             (- (pa * vb - pb * va + (pd * ve - pe * vd)))"
    by (simp add: calcCoriolisEffect_def Let_def)
next
  assume M: "finite_mat6 M"
  have "mat_vec M 0 = 0"
    using M by (cases M) (auto elim!: finite_vec6E simp: double_simps)
  then show "calcCoriolisEffect M 0 = 0"
    by (simp add: calcCoriolisEffect_def Let_def) (simp add: double_simps)
qed

theorem coriolis_effect_witness:
  "mat_vec example_inertia example_velocity =
     Vec6 (Fin 2) (Fin (- 4)) (Fin 0) (Fin 3) (Fin 1) (Fin (- 5)) \<and>
   example_velocity = Vec6 (Fin 1) (Fin (- 2)) (Fin 0) (Fin 3) (Fin 0) (Fin (- 1)) \<and>
   calcCoriolisEffect example_inertia example_velocity =
     Vec6 (Fin (- 4)) (Fin (- 2)) (Fin (- 12)) (Fin 1) (Fin 12) (Fin 3) \<and>
   finite_mat6 example_inertia \<and>
   calcCoriolisEffect example_inertia 0 = 0"
proof -
  have h: "mat_vec example_inertia example_velocity =
      Vec6 (Fin 2) (Fin (- 4)) (Fin 0) (Fin 3) (Fin 1) (Fin (- 5))"
      "example_velocity = Vec6 (Fin 1) (Fin (- 2)) (Fin 0) (Fin 3) (Fin 0) (Fin (- 1))"
      "finite_mat6 example_inertia"
    by (simp_all add: example_inertia_def example_velocity_def double_simps)
  have c: "calcCoriolisEffect example_inertia example_velocity =
      Vec6 (Fin (- 4)) (Fin (- 2)) (Fin (- 12)) (Fin 1) (Fin 12) (Fin 3)"
    using coriolis_effect [where M = example_inertia and v = example_velocity
        and pa = "Fin 2" and pb = "Fin (- 4)" and pc = "Fin 0"
        and pd = "Fin 3" and pe = "Fin 1" and pf = "Fin (- 5)"
        and va = "Fin 1" and vb = "Fin (- 2)" and vc = "Fin 0"
        and vd = "Fin 3" and ve = "Fin 0" and vf = "Fin (- 1)",
        THEN conjunct2, THEN conjunct1]
    by (simp add: example_inertia_def example_velocity_def double_simps)
  show ?thesis
    using h c coriolis_effect [where M = example_inertia, THEN conjunct2, THEN conjunct2]
    by simp
qed

section \<open>Neutral buoyancy\<close>

lemma transformVector_zero:
  "finite_quat q \<Longrightarrow> transformVector q (Vec3 (Fin 0) (Fin 0) (Fin 0)) = Vec3 (Fin 0) (Fin 0) (Fin 0)"
  by (erule finite_quatE) (simp add: transformVector_def quat_vec_def Let_def double_simps)

lemma cross_zero_left:
  "finite_vec3 v \<Longrightarrow> cross (Vec3 (Fin 0) (Fin 0) (Fin 0)) v = Vec3 (Fin 0) (Fin 0) (Fin 0)"
  by (erule finite_vec3E) (simp add: double_simps)

lemma minus_self_finite: "finite_vec3 p \<Longrightarrow> p - p = Vec3 (Fin 0) (Fin 0) (Fin 0)"
  by (erule finite_vec3E) (simp add: double_simps)

lemma calcGravityBuoyancy_neutral:
  assumes "is_Fin W" "finite_vec3 (scale3 c W)" "finite_quat (quat_inverse orientation)"
    "finite_vec3 (transformVector (quat_inverse orientation) (Vec3 0 0 1))"
  shows "calcGravityBuoyancy orientation W W c c = 0"
proof -
  from assms(1) obtain w where W: "W = Fin w"
    by (rule is_FinE)
  have d: "W - W = Fin 0"
    by (simp add: W double_simps)
  have p: "scale3 c W - scale3 c W = Vec3 (Fin 0) (Fin 0) (Fin 0)"
    using assms(2) by (rule minus_self_finite)
  have t: "transformVector (quat_inverse orientation) (Vec3 (Fin 0) (Fin 0) (Fin 0)) =
      Vec3 (Fin 0) (Fin 0) (Fin 0)"
    using assms(3) by (rule transformVector_zero)
  have x: "cross (Vec3 (Fin 0) (Fin 0) (Fin 0))
      (transformVector (quat_inverse orientation) (Vec3 0 0 1)) = Vec3 (Fin 0) (Fin 0) (Fin 0)"
    using assms(4) by (rule cross_zero_left)
  show ?thesis
    unfolding calcGravityBuoyancy_def d p
    by (simp add: zero_double_def zero_vec6_def t x [unfolded zero_double_def])
qed

text \<open>
  C8, as the code has it. If weight equals buoyancy and the centre of gravity equals the
  centre of buoyancy, the gravity and buoyancy term is the zero 6-vector, for every
  orientation, weight and centre with which the code computes finite values: the weight
  is finite, the products of the coordinates of the centre with the weight are finite
  (they do not overflow), and the inverse orientation and the vector it rotates the unit
  vector \<open>(0, 0, 1)\<close> to are finite, as they are for every unit rotation.
\<close>

theorem neutral_restoring:
  "(is_Fin W \<and> finite_vec3 (scale3 c W) \<and> finite_quat (quat_inverse orientation) \<and>
    finite_vec3 (transformVector (quat_inverse orientation) (Vec3 0 0 1)) \<longrightarrow>
      calcGravityBuoyancy orientation W W c c = 0) \<and>
   (weight uwv = buoyancy uwv \<and>
    distance_body2centerofgravity uwv = distance_body2centerofbuoyancy uwv \<and>
    is_Fin (weight uwv) \<and>
    finite_vec3 (scale3 (distance_body2centerofgravity uwv) (weight uwv)) \<and>
    finite_quat (quat_inverse orientation) \<and>
    finite_vec3 (transformVector (quat_inverse orientation) (Vec3 0 0 1)) \<longrightarrow>
      calcGravityBuoyancy_uwv orientation uwv = 0)"
proof (intro conjI impI)
  assume "is_Fin W \<and> finite_vec3 (scale3 c W) \<and> finite_quat (quat_inverse orientation) \<and>
    finite_vec3 (transformVector (quat_inverse orientation) (Vec3 0 0 1))"
  then show "calcGravityBuoyancy orientation W W c c = 0"
    by (intro calcGravityBuoyancy_neutral) auto
next
  assume h: "weight uwv = buoyancy uwv \<and>
    distance_body2centerofgravity uwv = distance_body2centerofbuoyancy uwv \<and>
    is_Fin (weight uwv) \<and>
    finite_vec3 (scale3 (distance_body2centerofgravity uwv) (weight uwv)) \<and>
    finite_quat (quat_inverse orientation) \<and>
    finite_vec3 (transformVector (quat_inverse orientation) (Vec3 0 0 1))"
  then have "calcGravityBuoyancy orientation (weight uwv) (weight uwv)
      (distance_body2centerofgravity uwv) (distance_body2centerofgravity uwv) = 0"
    by (intro calcGravityBuoyancy_neutral) auto
  then show "calcGravityBuoyancy_uwv orientation uwv = 0"
    using h by (auto simp: calcGravityBuoyancy_uwv_def)
qed

theorem neutral_restoring_witness:
  "is_Fin (Fin 3) \<and> finite_vec3 (scale3 (Vec3 (Fin 1) (Fin 2) (Fin (- 1))) (Fin 3)) \<and>
   quat_inverse quat_example =
     \<lparr>qw = Fin (1 / 6), qx = Fin (- (1 / 3)), qy = Fin 0, qz = Fin (1 / 6)\<rparr> \<and>
   transformVector (quat_inverse quat_example) (Vec3 0 0 1) =
     Vec3 (Fin (- (1 / 9))) (Fin (1 / 9)) (Fin (7 / 9)) \<and>
   calcGravityBuoyancy quat_example (Fin 3) (Fin 3)
     (Vec3 (Fin 1) (Fin 2) (Fin (- 1))) (Vec3 (Fin 1) (Fin 2) (Fin (- 1))) = 0 \<and>
   weight example_neutral = buoyancy example_neutral \<and>
   distance_body2centerofgravity example_neutral =
     distance_body2centerofbuoyancy example_neutral \<and>
   calcGravityBuoyancy_uwv quat_example example_neutral = 0 \<and>
   calcGravityBuoyancy_uwv quat_example (example_neutral\<lparr>weight := Fin 5\<rparr>) =
     Vec6 (Fin (- (2 / 9))) (Fin (2 / 9)) (Fin (14 / 9))
          (Fin (10 / 3)) (Fin (- (4 / 3))) (Fin (2 / 3))"
proof -
  have i: "quat_inverse quat_example =
      \<lparr>qw = Fin (1 / 6), qx = Fin (- (1 / 3)), qy = Fin 0, qz = Fin (1 / 6)\<rparr>"
    by (simp add: quat_inverse_def squaredNorm_def quat_example_def Let_def double_simps)
  have t: "transformVector (quat_inverse quat_example) (Vec3 0 0 1) =
      Vec3 (Fin (- (1 / 9))) (Fin (1 / 9)) (Fin (7 / 9))"
    by (simp add: i transformVector_def quat_vec_def Let_def double_simps)
  have q: "finite_quat (quat_inverse quat_example)"
    by (simp add: i finite_quat_def)
  have r: "finite_vec3 (transformVector (quat_inverse quat_example) (Vec3 0 0 1))"
    by (simp add: t)
  have h: "is_Fin (Fin 3)" "finite_vec3 (scale3 (Vec3 (Fin 1) (Fin 2) (Fin (- 1))) (Fin 3))"
      "weight example_neutral = buoyancy example_neutral"
      "distance_body2centerofgravity example_neutral =
        distance_body2centerofbuoyancy example_neutral"
      "is_Fin (weight example_neutral)"
      "finite_vec3 (scale3 (distance_body2centerofgravity example_neutral)
        (weight example_neutral))"
    by (simp_all add: example_simps double_simps)
  have u: "calcGravityBuoyancy_uwv quat_example (example_neutral\<lparr>weight := Fin 5\<rparr>) =
      Vec6 (Fin (- (2 / 9))) (Fin (2 / 9)) (Fin (14 / 9))
           (Fin (10 / 3)) (Fin (- (4 / 3))) (Fin (2 / 3))"
    by (simp add: gravity_simps example_simps double_simps)
  show ?thesis
    using h q r i t u
      neutral_restoring [where W = "Fin 3" and c = "Vec3 (Fin 1) (Fin 2) (Fin (- 1))"
        and orientation = quat_example and uwv = example_neutral]
    by simp
qed

text \<open>
  C8, as the claim states it, asks only that weight equals buoyancy and the centres are
  equal. With the identity orientation, weight and buoyancy \<open>2 ^ 700\<close> and both centres
  \<open>(2 ^ 700, 0, 0)\<close>, all finite, the product of centre and weight overflows, infinity
  minus infinity is NaN, and the moment has two NaN. With weight and buoyancy 1, both
  centres zero and the finite orientation \<open>quat_tiny\<close>, the inverse is finite, the
  rotated unit vector overflows, and zero times infinity is NaN in the moment.
\<close>

theorem neutral_restoring_overflows:
  "is_Fin (Fin (2 ^ 700)) \<and> finite_vec3 (Vec3 (Fin (2 ^ 700)) 0 0) \<and>
   finite_quat quat_identity \<and>
   calcGravityBuoyancy quat_identity (Fin (2 ^ 700)) (Fin (2 ^ 700))
       (Vec3 (Fin (2 ^ 700)) 0 0) (Vec3 (Fin (2 ^ 700)) 0 0) =
     Vec6 (Fin 0) (Fin 0) (Fin 0) (Fin 0) NaN NaN \<and>
   finite_quat quat_tiny \<and> finite_quat (quat_inverse quat_tiny) \<and>
   calcGravityBuoyancy quat_tiny 1 1 0 0 = Vec6 (Fin 0) (Fin 0) (Fin 0) NaN NaN NaN"
proof -
  have f: "is_Fin (Fin (2 ^ 700))" "finite_vec3 (Vec3 (Fin (2 ^ 700)) 0 0)"
      "finite_quat quat_identity" "finite_quat quat_tiny"
    by (simp_all add: finite_quat_def quat_identity_def quat_tiny_def zero_double_def
        one_double_def)
  have a: "calcGravityBuoyancy quat_identity (Fin (2 ^ 700)) (Fin (2 ^ 700))
        (Vec3 (Fin (2 ^ 700)) 0 0) (Vec3 (Fin (2 ^ 700)) 0 0) =
      Vec6 (Fin 0) (Fin 0) (Fin 0) (Fin 0) NaN NaN"
    by (simp add: gravity_simps quat_identity_def overflow_large overflow_threshold_def
        double_simps)
  have i: "quat_inverse quat_tiny =
      \<lparr>qw = Fin (2 ^ 519), qx = Fin (- (2 ^ 519)), qy = Fin 0, qz = Fin 0\<rparr>"
    by (simp add: quat_inverse_def squaredNorm_def quat_tiny_def Let_def overflow_def
        overflow_threshold_def double_simps)
  have b: "calcGravityBuoyancy quat_tiny 1 1 0 0 = Vec6 (Fin 0) (Fin 0) (Fin 0) NaN NaN NaN"
    by (simp add: calcGravityBuoyancy_def i transformVector_def quat_vec_def Let_def
        overflow_def overflow_threshold_def double_simps)
  show ?thesis
    using f a b by (simp add: i finite_quat_def)
qed

section \<open>The orientation is not validated\<close>

text \<open>
  C10. The input checks test the two 6-vectors only. Whatever the orientation is, with or
  without NaN, a call whose two vectors have no NaN and whose damping term is computed
  returns a vector; and whether a call raises, and which error, does not depend on the
  orientation. Infinite components of the vectors pass the checks too. The vector
  returned may hold NaN and infinities, as the sample call after the theorem does.
\<close>

theorem orientation_not_validated:
  "(\<not> hasNaN control_input \<and> \<not> hasNaN velocity \<and>
    calcDampingAndCoriolisEffect (uwv_parameters m) velocity = Inr d \<longrightarrow>
      (\<exists>r. calcAcceleration m control_input velocity orientation = Inr r)) \<and>
   (\<not> hasNaN acceleration \<and> \<not> hasNaN velocity \<and>
    calcDampingAndCoriolisEffect (uwv_parameters m) velocity = Inr d \<longrightarrow>
      (\<exists>r. calcEfforts m acceleration velocity orientation = Inr r)) \<and>
   (calcAcceleration m control_input velocity orientation = Inl e) =
     (calcAcceleration m control_input velocity orientation' = Inl e) \<and>
   (calcEfforts m acceleration velocity orientation = Inl e) =
     (calcEfforts m acceleration velocity orientation' = Inl e)"
  by (simp add: calcAcceleration_def calcEfforts_def check_simps Let_def split: sum.splits)

theorem orientation_not_validated_witness:
  "isnan (qw quat_NaN) \<and>
   \<not> hasNaN (Vec6 PInf 0 0 0 0 0) \<and> \<not> hasNaN (0::vec6) \<and>
   calcDampingAndCoriolisEffect (uwv_parameters example_model) 0 = Inr 0 \<and>
   calcAcceleration example_model (Vec6 PInf 0 0 0 0 0) 0 quat_NaN =
     Inr (Vec6 PInf NaN NaN NaN NaN NaN) \<and>
   calcEfforts example_model (Vec6 PInf 0 0 0 0 0) 0 quat_NaN =
     Inr (Vec6 PInf NaN NaN NaN NaN NaN) \<and>
   calcAcceleration example_model 0 0 quat_NaN = Inr 0"
proof -
  have h: "\<not> hasNaN (Vec6 PInf 0 0 0 0 0)" "\<not> hasNaN (0::vec6)"
      "calcDampingAndCoriolisEffect (uwv_parameters example_model) 0 = Inr 0"
    by (simp_all add: damping_simps example_simps double_simps)
  have g: "calcGravityBuoyancy_uwv quat_NaN (uwv_parameters example_model) = 0"
    by (simp add: gravity_simps example_simps double_simps)
  from h orientation_not_validated [where m = example_model and velocity = 0
      and control_input = "Vec6 PInf 0 0 0 0 0" and acceleration = "Vec6 PInf 0 0 0 0 0"
      and d = 0 and orientation = quat_NaN]
  obtain r1 r2 where
    r1: "calcAcceleration example_model (Vec6 PInf 0 0 0 0 0) 0 quat_NaN = Inr r1" and
    r2: "calcEfforts example_model (Vec6 PInf 0 0 0 0 0) 0 quat_NaN = Inr r2"
    by blast
  have v1: "r1 = Vec6 PInf NaN NaN NaN NaN NaN"
    using r1 h g
    by (simp add: calcAcceleration_def check_simps Let_def)
       (auto simp: example_simps double_simps)
  have v2: "r2 = Vec6 PInf NaN NaN NaN NaN NaN"
    using r2 h g
    by (simp add: calcEfforts_def check_simps Let_def)
       (auto simp: example_simps double_simps)
  have z: "calcAcceleration example_model 0 0 quat_NaN = Inr 0"
    using h g
    by (simp add: calcAcceleration_def check_simps Let_def)
       (simp add: example_simps double_simps)
  show ?thesis
    using h r1 r2 v1 v2 z by (simp add: quat_NaN_def)
qed

section \<open>The round trip\<close>

text \<open>A sample of the round trip, computed: with two damping matrices and the inverse
  of the inertia matrix cached, the acceleration comes back.\<close>

lemma round_trip_sample:
  "damping_count_matches (uwv_parameters example_model_INTERMEDIATE) \<and>
   is_inverse_of (invert_inertia_matrix example_model_INTERMEDIATE)
     (inertia_matrix (uwv_parameters example_model_INTERMEDIATE)) \<and>
   calcEfforts example_model_INTERMEDIATE example_velocity example_velocity quat_example =
     Inr (Vec6 (Fin (7 / 9)) (Fin (- (142 / 9))) (Fin (- (94 / 9)))
               (Fin (58 / 3)) (Fin (38 / 3)) (Fin (- (22 / 3)))) \<and>
   calcAcceleration example_model_INTERMEDIATE
     (Vec6 (Fin (7 / 9)) (Fin (- (142 / 9))) (Fin (- (94 / 9)))
           (Fin (58 / 3)) (Fin (38 / 3)) (Fin (- (22 / 3))))
     example_velocity quat_example = Inr example_velocity"
proof -
  have g: "calcGravityBuoyancy_uwv quat_example (uwv_parameters example_model_INTERMEDIATE) =
      Vec6 (Fin (- (2 / 9))) (Fin (2 / 9)) (Fin (14 / 9))
           (Fin (10 / 3)) (Fin (- (4 / 3))) (Fin (2 / 3))"
    by (simp add: gravity_simps example_simps double_simps)
  have d: "calcDampingAndCoriolisEffect (uwv_parameters example_model_INTERMEDIATE)
        example_velocity =
      Inr (Vec6 (Fin (- 1)) (Fin (- 12)) (Fin (- 12)) (Fin 13) (Fin 13) (Fin (- 3)))"
    by (simp add: damping_simps example_simps double_simps)
  have p: "damping_count_matches (uwv_parameters example_model_INTERMEDIATE)"
    by (simp add: damping_count_matches_def example_simps)
  have i: "is_inverse_of (invert_inertia_matrix example_model_INTERMEDIATE)
      (inertia_matrix (uwv_parameters example_model_INTERMEDIATE))"
    by (simp add: is_inverse_of_def example_simps double_simps)
  have e: "calcEfforts example_model_INTERMEDIATE example_velocity example_velocity
        quat_example =
      Inr (Vec6 (Fin (7 / 9)) (Fin (- (142 / 9))) (Fin (- (94 / 9)))
                (Fin (58 / 3)) (Fin (38 / 3)) (Fin (- (22 / 3))))"
    by (simp add: calcEfforts_def check_simps g d Let_def)
       (simp add: example_simps double_simps)
  have a: "calcAcceleration example_model_INTERMEDIATE
      (Vec6 (Fin (7 / 9)) (Fin (- (142 / 9))) (Fin (- (94 / 9)))
            (Fin (58 / 3)) (Fin (38 / 3)) (Fin (- (22 / 3))))
      example_velocity quat_example = Inr example_velocity"
    by (simp add: calcAcceleration_def check_simps g d Let_def)
       (simp add: example_simps double_simps)
  show ?thesis
    using p i e a by simp
qed

text \<open>
  C1. The claim: for every parameter set that \<^verbatim>\<open>setUWVParameters\<close> accepts and whose
  cached matrix is the inverse of the inertia matrix, and for every velocity, orientation
  and acceleration without NaN, \<^verbatim>\<open>calcAcceleration\<close> of the result of \<^verbatim>\<open>calcEfforts\<close> is
  the acceleration. The code at the \<^verbatim>\<open>INTERMEDIATE\<close> parameter set with three damping
  matrices and the identity as inertia matrix: \<^verbatim>\<open>setUWVParameters\<close> accepts it, the
  cached matrix is the inverse, all values are finite, and \<^verbatim>\<open>calcEfforts\<close> raises, so
  that there is no effort to take back to the acceleration.
\<close>

theorem round_trip_raises_INTERMEDIATE_3:
  "fst (setUWVParameters sample_solve example_INTERMEDIATE_3 example_model) = Inr () \<and>
   is_inverse_of
     (invert_inertia_matrix (snd (setUWVParameters sample_solve example_INTERMEDIATE_3 example_model)))
     (inertia_matrix example_INTERMEDIATE_3) \<and>
   finite_parameters example_INTERMEDIATE_3 \<and>
   finite_vec6 example_velocity \<and> finite_quat quat_identity \<and>
   calcEfforts (snd (setUWVParameters sample_solve example_INTERMEDIATE_3 example_model))
       example_velocity example_velocity quat_identity =
     Inl (runtime_error ''dampMatrices does not have 2 elements.'')"
proof -
  let ?m = "snd (setUWVParameters sample_solve example_INTERMEDIATE_3 example_model)"
  have c: "checkParameters example_INTERMEDIATE_3 = Inr ()"
    by (simp add: checkParameters_def example_simps double_simps)
  have X: "sample_solve (inertia_matrix example_INTERMEDIATE_3) 1 = 1"
    by (simp add: sample_solve_def example_simps double_simps)
  have m: "uwv_parameters ?m = example_INTERMEDIATE_3" "invert_inertia_matrix ?m = 1"
    by (simp_all add: setUWVParameters_def c calcInvInertiaMatrix_def Let_def X)
  have i: "is_inverse_of 1 (inertia_matrix example_INTERMEDIATE_3)"
    by (simp add: is_inverse_of_def example_simps double_simps)
  have f: "finite_parameters example_INTERMEDIATE_3" "finite_vec6 example_velocity"
      "finite_quat quat_identity"
    by (simp_all add: finite_parameters_def finite_quat_def example_simps double_simps)
  have d: "calcDampingAndCoriolisEffect example_INTERMEDIATE_3 example_velocity =
      Inl (runtime_error ''dampMatrices does not have 2 elements.'')"
    by (simp add: calcDampingAndCoriolisEffect_def caclSimpleDamping_def example_simps)
  have n: "\<not> hasNaN example_velocity"
    by (simp add: example_velocity_def)
  have a: "fst (setUWVParameters sample_solve example_INTERMEDIATE_3 example_model) = Inr ()"
    by (simp add: setUWVParameters_def c Let_def)
  show ?thesis
    by (simp add: a m i f d n calcEfforts_def checkAcceleration_def checkVelocity_def Let_def)
qed

end
